theory Spec2Isabelle
  imports Complex_Main
begin

section \<open>Message text\<close>

text \<open>
  A Python \<^verbatim>\<open>str\<close> is a sequence of Unicode code points, so a message text is a list of
  code points (natural numbers). ASCII literals are written through \<open>str\<close>; the emoji of
  the sources are named by their code point.
\<close>

type_synonym pystr = "nat list"

definition str :: "string \<Rightarrow> pystr" where
  "str s = map of_char s"

abbreviation CHECK_MARK :: nat where "CHECK_MARK \<equiv> 9989"        \<comment> \<open>U+2705, the "confirmed" marker\<close>
abbreviation BEGINNER :: nat where "BEGINNER \<equiv> 128304"          \<comment> \<open>U+1F530, the "alternate-confirmed" marker\<close>
abbreviation ALARM_CLOCK :: nat where "ALARM_CLOCK \<equiv> 9200"      \<comment> \<open>U+23F0, in-edit marker\<close>
abbreviation ONE_OCLOCK :: nat where "ONE_OCLOCK \<equiv> 128336"      \<comment> \<open>U+1F550, in-edit marker\<close>
abbreviation HOURGLASS :: nat where "HOURGLASS \<equiv> 9203"          \<comment> \<open>U+23F3, the pending status\<close>
abbreviation CROSS_MARK :: nat where "CROSS_MARK \<equiv> 10060"       \<comment> \<open>U+274C, the failure status\<close>
abbreviation VS16 :: nat where "VS16 \<equiv> 65039"                   \<comment> \<open>U+FE0F, variation selector 16\<close>
abbreviation KEYCAP :: nat where "KEYCAP \<equiv> 8419"                \<comment> \<open>U+20E3, combining keycap\<close>
abbreviation KEYCAP_TEN :: nat where "KEYCAP_TEN \<equiv> 128287"      \<comment> \<open>U+1F51F\<close>

definition is_digit :: "nat \<Rightarrow> bool" where
  \<comment> \<open>\<^verbatim>\<open>\d\<close>, on the ASCII digits; the decimal digits of other scripts, which Python's
      \<^verbatim>\<open>\d\<close> also accepts, are outside the model\<close>
  "is_digit c \<longleftrightarrow> 48 \<le> c \<and> c \<le> 57"

definition int_of_digits :: "pystr \<Rightarrow> int" where
  \<comment> \<open>\<^verbatim>\<open>int(s)\<close> for a run of digits, of any length (a Python that limits the length of
      the runs it converts is outside the model)\<close>
  "int_of_digits ds = foldl (\<lambda>a d. 10 * a + (int d - 48)) 0 ds"

fun startswith :: "pystr \<Rightarrow> pystr \<Rightarrow> bool" where
  "startswith t [] = True"
| "startswith [] (p # ps) = False"
| "startswith (c # cs) (p # ps) = (c = p \<and> startswith cs ps)"

fun contains :: "pystr \<Rightarrow> pystr \<Rightarrow> bool" where
  \<comment> \<open>\<^verbatim>\<open>sub in t\<close>\<close>
  "contains sub [] = (sub = [])"
| "contains sub (c # cs) = (startswith (c # cs) sub \<or> contains sub cs)"

definition lower :: "pystr \<Rightarrow> pystr" where
  \<comment> \<open>\<^verbatim>\<open>s.lower()\<close> on the ASCII letters; other code points are left as they are\<close>
  "lower s = map (\<lambda>c. if 65 \<le> c \<and> c \<le> 90 then c + 32 else c) s"

subsection \<open>The first-group point value\<close>

text \<open>
  \<^verbatim>\<open>re.search(r'[CHECK BEGINNER]?(\d+)\(', message_text)\<close>: the leftmost position where an
  optional marker, a run of digits and an opening parenthesis follow each other. The
  greedy \<^verbatim>\<open>\d+\<close> can only be followed by the parenthesis when it takes the whole run.
\<close>

definition digits_then_paren :: "pystr \<Rightarrow> (pystr \<times> pystr) option" where
  \<comment> \<open>\<^verbatim>\<open>(\d+)\(\<close> at the head of the text: the digits and what follows the parenthesis\<close>
  "digits_then_paren t =
     (let ds = takeWhile is_digit t; rest = dropWhile is_digit t
      in if ds = [] then None
         else (case rest of [] \<Rightarrow> None
               | c # after \<Rightarrow> if c = 40 then Some (ds, after) else None))"

definition marker_digits_paren :: "pystr \<Rightarrow> (pystr \<times> pystr) option" where
  \<comment> \<open>\<^verbatim>\<open>[CHECK BEGINNER]?(\d+)\(\<close> at the head of the text\<close>
  "marker_digits_paren t =
     (case t of [] \<Rightarrow> None
      | c # cs \<Rightarrow>
          if c = CHECK_MARK \<or> c = BEGINNER
          then (case digits_then_paren cs of Some m \<Rightarrow> Some m | None \<Rightarrow> digits_then_paren t)
          else digits_then_paren t)"

fun search_point :: "pystr \<Rightarrow> pystr option" where
  "search_point [] = None"
| "search_point (c # cs) =
     (case marker_digits_paren (c # cs) of
        Some (ds, after) \<Rightarrow> Some ds
      | None \<Rightarrow> search_point cs)"

definition extract_points_and_winner :: "pystr \<Rightarrow> int option" where
  \<comment> \<open>the first component of the pair the method returns; the second one is always \<^verbatim>\<open>None\<close>\<close>
  "extract_points_and_winner message_text = map_option int_of_digits (search_point message_text)"

section \<open>The imported-schedule tracker (excel\_importer.py)\<close>

definition STATUS_FAILURE :: pystr where
  "STATUS_FAILURE = [CROSS_MARK]"

definition VERIFICATION_EMOJIS :: "int \<Rightarrow> pystr option" where
  \<comment> \<open>the table of main.py; the importer writes its first three entries out as literals\<close>
  "VERIFICATION_EMOJIS k =
     (if k = 0 then Some [CHECK_MARK, 48, VS16, KEYCAP]
      else if k = 1 then Some [CHECK_MARK, 49, VS16, KEYCAP]
      else if k = 2 then Some [CHECK_MARK, 50, VS16, KEYCAP]
      else if k = 3 then Some [CHECK_MARK, 51, VS16, KEYCAP]
      else if k = 4 then Some [CHECK_MARK, 52, VS16, KEYCAP]
      else if k = 5 then Some [CHECK_MARK, 53, VS16, KEYCAP]
      else if k = 6 then Some [CHECK_MARK, 54, VS16, KEYCAP]
      else if k = 7 then Some [CHECK_MARK, 55, VS16, KEYCAP]
      else if k = 8 then Some [CHECK_MARK, 56, VS16, KEYCAP]
      else if k = 9 then Some [CHECK_MARK, 57, VS16, KEYCAP]
      else if k = 10 then Some [CHECK_MARK, KEYCAP_TEN]
      else None)"

definition expected_of :: "pystr \<Rightarrow> pystr" where
  \<comment> \<open>\<^verbatim>\<open>"banquier" if "banquier" in expected_winner.lower() else "joueur"\<close>\<close>
  "expected_of expected_winner =
     (if contains (str ''banquier'') (lower expected_winner) then str ''banquier'' else str ''joueur'')"

definition verify_excel_prediction ::
  "int \<Rightarrow> pystr \<Rightarrow> int \<Rightarrow> pystr \<Rightarrow> int \<Rightarrow> pystr option \<times> bool" where
  \<comment> \<open>returns \<open>(status, should_continue)\<close>\<close>
  "verify_excel_prediction game_number message_text predicted_numero expected_winner current_offset =
     (let real_offset_from_game = game_number - predicted_numero in
      if real_offset_from_game < 0 then (None, True)
      else if real_offset_from_game > 2 then (Some STATUS_FAILURE, False)
      else
        let current_offset = (if current_offset \<noteq> real_offset_from_game
                              then real_offset_from_game else current_offset);
            target_number = predicted_numero + current_offset
        in
        if game_number \<noteq> target_number then (None, True)
        else if ALARM_CLOCK \<in> set message_text \<or> ONE_OCLOCK \<in> set message_text then (None, True)
        else if \<not> (CHECK_MARK \<in> set message_text \<or> BEGINNER \<in> set message_text) then (None, True)
        else
          (case extract_points_and_winner message_text of
             None \<Rightarrow>
               if CHECK_MARK \<in> set message_text \<and> BEGINNER \<notin> set message_text
               then (Some STATUS_FAILURE, False)
               else (None, True)
           | Some joueur_point \<Rightarrow>
               let expected = expected_of expected_winner;
                   is_success =
                     (if expected = str ''joueur'' then joueur_point \<ge> 7
                      else if expected = str ''banquier'' then joueur_point \<le> 4
                      else False)
               in
               if is_success then
                 (let real_offset = game_number - predicted_numero in
                  if real_offset = 0 then (VERIFICATION_EMOJIS 0, False)
                  else if real_offset = 1 then (VERIFICATION_EMOJIS 1, False)
                  else if real_offset = 2 then (VERIFICATION_EMOJIS 2, False)
                  else (VERIFICATION_EMOJIS 2, False))
               else if current_offset < 2 then (None, True)
               else (Some STATUS_FAILURE, False)))"

definition is_success_status :: "pystr option \<Rightarrow> bool" where
  \<comment> \<open>a success token: the check mark followed by the attempt index\<close>
  "is_success_status s = (case s of Some (c # cs) \<Rightarrow> c = CHECK_MARK | _ \<Rightarrow> False)"

section \<open>Effects on the collaborators\<close>

text \<open>
  The transport and the files are outside the program. A call that reaches them is
  recorded as an effect, in call order; whether an edit is delivered or raises is an input
  of the model (\<open>edit_ok\<close>). \<open>SaveConfig\<close> and \<open>SavePredictions\<close> stand for a call of
  \<^verbatim>\<open>save_config()\<close> and of \<^verbatim>\<open>excel_manager.save_predictions()\<close>, which write the whole
  current configuration (resp. the whole map of imported predictions).
\<close>

datatype effect =
    EditMessage int int pystr    \<comment> \<open>\<^verbatim>\<open>client.edit_message(channel_id, msg_id, new_text)\<close>\<close>
  | SendMessage int pystr        \<comment> \<open>\<^verbatim>\<open>client.send_message(channel, text)\<close>\<close>
  | SaveConfig
  | SavePredictions

definition truthy :: "int option \<Rightarrow> bool" where
  \<comment> \<open>Python's truth value of an identifier that may be \<^verbatim>\<open>None\<close>: zero counts as absent\<close>
  "truthy x = (case x of None \<Rightarrow> False | Some n \<Rightarrow> n \<noteq> 0)"

fun str_of_nat :: "nat \<Rightarrow> pystr" where
  "str_of_nat n = (if n < 10 then [48 + n] else str_of_nat (n div 10) @ [48 + n mod 10])"

declare str_of_nat.simps [simp del]

definition str_of_int :: "int \<Rightarrow> pystr" where
  \<comment> \<open>\<^verbatim>\<open>str(n)\<close>, \<^verbatim>\<open>f"{n}"\<close>\<close>
  "str_of_int n = (if n < 0 then 45 # str_of_nat (nat (- n)) else str_of_nat (nat n))"

fun replace_from :: "nat \<Rightarrow> pystr \<Rightarrow> pystr \<Rightarrow> pystr \<Rightarrow> pystr" where
  \<comment> \<open>the first argument counts the code points of a replaced occurrence still to skip\<close>
  "replace_from k old new [] = []"
| "replace_from (Suc k) old new (c # cs) = replace_from k old new cs"
| "replace_from 0 old new (c # cs) =
     (if startswith (c # cs) old then new @ replace_from (length old - 1) old new cs
      else c # replace_from 0 old new cs)"

definition replace :: "pystr \<Rightarrow> pystr \<Rightarrow> pystr \<Rightarrow> pystr" where
  \<comment> \<open>\<^verbatim>\<open>s.replace(old, new)\<close> for a non-empty \<open>old\<close>: the occurrences from left to right,
      without overlap\<close>
  "replace s old new = replace_from 0 old new s"

fun rsplit_head :: "pystr \<Rightarrow> pystr \<Rightarrow> pystr" where
  \<comment> \<open>\<^verbatim>\<open>s.rsplit(sep, 1)[0]\<close> for a non-empty \<open>sep\<close>: what precedes the last occurrence of
      \<open>sep\<close>, the whole of \<open>s\<close> when there is none\<close>
  "rsplit_head sep [] = []"
| "rsplit_head sep (c # cs) =
     (if contains sep cs then c # rsplit_head sep cs
      else if startswith (c # cs) sep then []
      else c # rsplit_head sep cs)"

definition STATUT_PENDING :: pystr where
  \<comment> \<open>the placeholder \<^verbatim>\<open>"statut :HOURGLASS"\<close>\<close>
  "STATUT_PENDING = str ''statut :'' @ [HOURGLASS]"

section \<open>The imported-schedule tracker (main.py)\<close>

text \<open>
  One imported prediction, a dictionary in the source. The fields that a record may lack
  are read with a default there: \<^verbatim>\<open>pred.get("verified", False)\<close>,
  \<^verbatim>\<open>pred.get("current_offset", 0)\<close>, \<^verbatim>\<open>pred.get("channel_id")\<close>. The timestamp
  \<^verbatim>\<open>imported_at\<close> and the field \<^verbatim>\<open>chat_id\<close> are written once and never read.
\<close>

record excel_pred =
  numero :: int
  date_heure :: pystr
  victoire :: pystr
  launched :: bool
  message_id :: "int option"
  channel_id :: "int option"
  current_offset :: "int option"
  verified :: bool
  skipped_consecutive :: bool

definition get_prediction_format :: "int \<Rightarrow> pystr \<Rightarrow> pystr" where
  "get_prediction_format numero' victoire' =
     (let victoire_lower = lower victoire'; numero_str = str_of_int numero' in
      if contains (str ''joueur'') victoire_lower \<or> contains (str ''player'') victoire_lower
      then [128309] @ numero_str @ str '':'' @ [127359, VS16] @ str ''+6,5'' @ [128309] @ STATUT_PENDING
      else if contains (str ''banquier'') victoire_lower \<or> contains (str ''banker'') victoire_lower
      then [128309] @ numero_str @ str '':'' @ [9410, VS16] @ str ''-4,,5'' @ [128309] @ STATUT_PENDING
      else [128309] @ numero_str @ str '':'' @ [127359, VS16] @ str ''+6,5'' @ [128309] @ STATUT_PENDING)"

definition status_text :: "int \<Rightarrow> pystr \<Rightarrow> pystr \<Rightarrow> pystr" where
  \<comment> \<open>\<^verbatim>\<open>new_text\<close> of \<^verbatim>\<open>update_prediction_status\<close>\<close>
  "status_text numero' winner status =
     (let full_base_text_with_placeholder = get_prediction_format numero' winner;
          base_format = rsplit_head STATUT_PENDING full_base_text_with_placeholder
      in base_format @ str ''statut :'' @ status)"

definition update_prediction_status ::
  "excel_pred \<Rightarrow> int \<Rightarrow> pystr \<Rightarrow> pystr \<Rightarrow> bool \<Rightarrow> bool \<Rightarrow> excel_pred \<times> effect list" where
  \<comment> \<open>the last argument says whether \<^verbatim>\<open>client.edit_message\<close> returns (\<open>True\<close>) or raises\<close>
  "update_prediction_status pred numero' winner status verified' edit_ok =
     (if truthy (message_id pred) \<and> truthy (channel_id pred) then
        (let new_text = status_text numero' winner status;
             edit = EditMessage (the (channel_id pred)) (the (message_id pred)) new_text
         in if edit_ok then (pred\<lparr>verified := verified'\<rparr>, [edit, SavePredictions])
            else (pred, [edit]))
      else (pred, []))"

function skip_loop :: "int \<Rightarrow> int \<Rightarrow> int \<Rightarrow> int" where
  \<comment> \<open>\<^verbatim>\<open>while current_offset <= 2 and game_number > pred_numero + current_offset: current_offset += 1\<close>\<close>
  "skip_loop game_number pred_numero offset =
     (if offset \<le> 2 \<and> game_number > pred_numero + offset
      then skip_loop game_number pred_numero (offset + 1)
      else offset)"
  by pat_completeness auto
termination
  by (relation "measure (\<lambda>(g, p, c). nat (3 - c))") auto

declare skip_loop.simps [simp del]

definition sequential_check ::
  "int \<Rightarrow> pystr \<Rightarrow> bool \<Rightarrow> excel_pred \<Rightarrow> int \<Rightarrow> excel_pred \<times> effect list" where
  \<comment> \<open>the part of the loop body after the gap detection ("V\'erification s\'equentielle")\<close>
  "sequential_check game_number message_text edit_ok pred offset =
     (let pred_numero = numero pred; expected_winner = victoire pred;
          (status, should_continue) =
             verify_excel_prediction game_number message_text pred_numero expected_winner offset
      in if status \<noteq> None \<and> status \<noteq> Some [] then
           update_prediction_status pred pred_numero expected_winner (the status) True edit_ok
         else if should_continue \<and> game_number = pred_numero + offset then
           (let new_offset = offset + 1 in
            if new_offset \<le> 2 then (pred\<lparr>current_offset := Some new_offset\<rparr>, [SavePredictions])
            else update_prediction_status pred pred_numero expected_winner STATUS_FAILURE True edit_ok)
         else (pred, []))"

definition verify_excel_pred :: "int \<Rightarrow> pystr \<Rightarrow> bool \<Rightarrow> excel_pred \<Rightarrow> excel_pred \<times> effect list" where
  \<comment> \<open>the body of the loop of \<^verbatim>\<open>verify_excel_predictions\<close>, for one record\<close>
  "verify_excel_pred game_number message_text edit_ok pred =
     (if \<not> launched pred \<or> verified pred then (pred, [])
      else
        let pred_numero = numero pred; expected_winner = victoire pred;
            offset = (case current_offset pred of None \<Rightarrow> 0 | Some c \<Rightarrow> c);
            target_number = pred_numero + offset
        in
        if game_number > target_number then
          (let offset = skip_loop game_number pred_numero offset in
           if offset > 2 then
             update_prediction_status pred pred_numero expected_winner STATUS_FAILURE True edit_ok
           else
             (let (pred', effs) = sequential_check game_number message_text edit_ok
                                    (pred\<lparr>current_offset := Some offset\<rparr>) offset
              in (pred', SavePredictions # effs)))
        else sequential_check game_number message_text edit_ok pred offset)"

definition verify_excel_predictions ::
  "int \<Rightarrow> pystr \<Rightarrow> (int \<Rightarrow> bool) \<Rightarrow> (int \<times> excel_pred) list \<Rightarrow> (int \<times> excel_pred) list \<times> effect list" where
  \<comment> \<open>the loop over \<^verbatim>\<open>excel_manager.predictions.items()\<close>; the map is kept as the list of its
      entries in insertion order, the key \<^verbatim>\<open>f"{numero}"\<close> written as the number it prints;
      \<open>edit_ok key\<close> is the outcome of the edit made for that entry\<close>
  "verify_excel_predictions game_number message_text edit_ok predictions =
     (map (\<lambda>(key, pred). (key, fst (verify_excel_pred game_number message_text (edit_ok key) pred)))
          predictions,
      concat (map (\<lambda>(key, pred). snd (verify_excel_pred game_number message_text (edit_ok key) pred))
          predictions))"

section \<open>The live tracker (main.py)\<close>

text \<open>
  One live prediction, an entry of \<^verbatim>\<open>active_predictions\<close>. The entry is created without
  the keys \<^verbatim>\<open>attempts\<close> and \<^verbatim>\<open>status\<close>; they are read with
  \<^verbatim>\<open>pred_data.get("attempts", 0)\<close>. The keys \<^verbatim>\<open>source_game\<close>, \<^verbatim>\<open>t_value\<close> and
  \<^verbatim>\<open>created_at\<close> are written at creation and never read.
\<close>

record live_pred =
  lp_message_id :: "int option"
  lp_channel_id :: "int option"
  expected :: pystr
  base_text :: pystr
  lp_verified :: bool
  status :: "pystr option"
  attempts :: "int option"

definition status_emoji_of :: "int \<Rightarrow> pystr" where
  \<comment> \<open>\<^verbatim>\<open>VERIFICATION_EMOJIS.get(current_offset, f"CHECK{current_offset}")\<close>\<close>
  "status_emoji_of offset =
     (case VERIFICATION_EMOJIS offset of Some e \<Rightarrow> e | None \<Rightarrow> CHECK_MARK # str_of_int offset)"

definition is_finalized_message :: "pystr \<Rightarrow> bool" where
  "is_finalized_message message_text \<longleftrightarrow> CHECK_MARK \<in> set message_text \<or> BEGINNER \<in> set message_text"

definition verify_pred ::
  "int \<Rightarrow> pystr \<Rightarrow> int \<Rightarrow> bool \<Rightarrow> int \<Rightarrow> live_pred \<Rightarrow> live_pred \<times> effect list" where
  \<comment> \<open>the body of the loop of \<^verbatim>\<open>verify_active_predictions\<close> for the entry \<open>pred_data\<close> under
      the key \<open>pred_numero\<close>; \<open>edit_ok\<close> says whether \<^verbatim>\<open>client.edit_message\<close> returns or raises\<close>
  "verify_pred game_number message_text r_offset edit_ok pred_numero pred_data =
     (if lp_verified pred_data then (pred_data, [])
      else
        let attempts_done = (case attempts pred_data of None \<Rightarrow> 0 | Some a \<Rightarrow> a) in
        if game_number < pred_numero then (pred_data, [])
        else
          let offset = game_number - pred_numero;
              msg_id = lp_message_id pred_data;
              channel_id = lp_channel_id pred_data
          in
          if offset > r_offset then
            (pred_data\<lparr>lp_verified := True, status := Some STATUS_FAILURE,
                        attempts := Some (r_offset + 1)\<rparr>,
             (if truthy msg_id \<and> truthy channel_id
              then [EditMessage (the channel_id) (the msg_id)
                      (replace (base_text pred_data) STATUT_PENDING (str ''statut :'' @ STATUS_FAILURE))]
              else []) @ [SaveConfig])
          else if offset > attempts_done then
            (if \<not> truthy msg_id \<or> \<not> truthy channel_id then (pred_data, [])
             else
               (case extract_points_and_winner message_text of
                  None \<Rightarrow> (pred_data, [])
                | Some premier_groupe_point \<Rightarrow>
                    let is_success =
                          (if expected pred_data = str ''joueur''
                           then (of_int premier_groupe_point :: rat) > 6.5
                           else if expected pred_data = str ''banquier''
                           then (of_int premier_groupe_point :: rat) < 4.5
                           else False);
                        pred_data = pred_data\<lparr>attempts := Some offset\<rparr>
                    in
                    if is_success then
                      (let status_emoji = status_emoji_of offset;
                           new_text = replace (base_text pred_data) STATUT_PENDING
                                        (str ''statut :'' @ status_emoji);
                           edit = EditMessage (the channel_id) (the msg_id) new_text
                       in if edit_ok
                          then (pred_data\<lparr>lp_verified := True, status := Some status_emoji\<rparr>,
                                [edit, SaveConfig])
                          else (pred_data, [edit]))
                    else if offset \<ge> r_offset then
                      (let new_text = replace (base_text pred_data) STATUT_PENDING
                                        (str ''statut :'' @ STATUS_FAILURE);
                           edit = EditMessage (the channel_id) (the msg_id) new_text
                       in if edit_ok
                          then (pred_data\<lparr>lp_verified := True, status := Some STATUS_FAILURE\<rparr>,
                                [edit, SaveConfig])
                          else (pred_data, [edit]))
                    else (pred_data, [SaveConfig])))
          else (pred_data, []))"

text \<open>
  The globals of main.py that the tracker and the commands read and write. The map
  \<^verbatim>\<open>active_predictions\<close> is kept as the list of its entries in insertion order, the key
  \<^verbatim>\<open>str(predicted_numero)\<close> written as the number it prints.
\<close>

record bot_state =
  detected_stat_channel :: "int option"
  detected_display_channel :: "int option"
  a_offset :: int
  r_offset :: int
  active_predictions :: "(int \<times> live_pred) list"

definition verify_active_predictions ::
  "bot_state \<Rightarrow> int \<Rightarrow> pystr \<Rightarrow> (int \<Rightarrow> bool) \<Rightarrow> bot_state \<times> effect list" where
  \<comment> \<open>\<open>edit_ok key\<close> is the outcome of the edit made for the entry under \<open>key\<close>\<close>
  "verify_active_predictions st game_number message_text edit_ok =
     (if \<not> is_finalized_message message_text then (st, [])
      else
        (st\<lparr>active_predictions :=
               map (\<lambda>(key, pred_data).
                     (key, fst (verify_pred game_number message_text (r_offset st) (edit_ok key) key pred_data)))
                   (active_predictions st)\<rparr>,
         concat (map (\<lambda>(key, pred_data).
                     snd (verify_pred game_number message_text (r_offset st) (edit_ok key) key pred_data))
                   (active_predictions st))))"

subsection \<open>Parsing of a result message\<close>

definition group_at :: "pystr \<Rightarrow> (pystr \<times> pystr \<times> nat) option" where
  \<comment> \<open>\<^verbatim>\<open>[CHECK BEGINNER]?(\d+)\(([^)]+)\)\<close> at the head of the text: the total, the cards and the
      length of the match. The greedy \<^verbatim>\<open>[^)]+\<close> runs to the first closing parenthesis.\<close>
  "group_at t =
     (case marker_digits_paren t of
        None \<Rightarrow> None
      | Some (ds, after) \<Rightarrow>
          let cards = takeWhile (\<lambda>c. c \<noteq> 41) after; rest = dropWhile (\<lambda>c. c \<noteq> 41) after
          in if cards = [] then None
             else (case rest of [] \<Rightarrow> None
                   | c # rest' \<Rightarrow> Some (ds, cards, length t - length rest')))"

fun findall_groups :: "nat \<Rightarrow> pystr \<Rightarrow> (pystr \<times> pystr) list" where
  \<comment> \<open>\<^verbatim>\<open>re.findall\<close> of the group pattern: the matches from left to right, without overlap;
      the first argument counts the code points of the last match still to skip\<close>
  "findall_groups k [] = []"
| "findall_groups (Suc k) (c # cs) = findall_groups k cs"
| "findall_groups 0 (c # cs) =
     (case group_at (c # cs) of
        Some (ds, cards, n) \<Rightarrow> (ds, cards) # findall_groups (n - 1) cs
      | None \<Rightarrow> findall_groups 0 cs)"

definition is_suit :: "nat \<Rightarrow> bool" where
  \<comment> \<open>the class of the card pattern: the four suits and the variation selector\<close>
  "is_suit c \<longleftrightarrow> c = 9824 \<or> c = 9829 \<or> c = 9830 \<or> c = 9827 \<or> c = VS16"

definition card_at :: "pystr \<Rightarrow> (pystr \<times> nat) option" where
  \<comment> \<open>\<^verbatim>\<open>(\d+|[AKQJ])[suits]\<close> at the head of the text: the value and the length of the match\<close>
  "card_at t =
     (let ds = takeWhile is_digit t; rest = dropWhile is_digit t in
      if ds \<noteq> [] \<and> (case rest of [] \<Rightarrow> False | c # _ \<Rightarrow> is_suit c) then Some (ds, length ds + 1)
      else (case t of
              c # s # _ \<Rightarrow>
                if (c = 65 \<or> c = 75 \<or> c = 81 \<or> c = 74) \<and> is_suit s then Some ([c], 2) else None
            | _ \<Rightarrow> None))"

fun findall_cards :: "nat \<Rightarrow> pystr \<Rightarrow> pystr list" where
  "findall_cards k [] = []"
| "findall_cards (Suc k) (c # cs) = findall_cards k cs"
| "findall_cards 0 (c # cs) =
     (case card_at (c # cs) of
        Some (v, n) \<Rightarrow> v # findall_cards (n - 1) cs
      | None \<Rightarrow> findall_cards 0 cs)"

definition has_six_in_first_group :: "pystr \<Rightarrow> bool" where
  "has_six_in_first_group message_text =
     (case findall_groups 0 message_text of
        [] \<Rightarrow> False
      | (ds, first_group) # _ \<Rightarrow> str ''6'' \<in> set (findall_cards 0 first_group))"

definition has_six_in_both_groups :: "pystr \<Rightarrow> bool" where
  "has_six_in_both_groups message_text =
     (case findall_groups 0 message_text of
        (ds1, first_group) # (ds2, second_group) # _ \<Rightarrow>
          str ''6'' \<in> set (findall_cards 0 first_group) \<and> str ''6'' \<in> set (findall_cards 0 second_group)
      | _ \<Rightarrow> False)"

definition count_sixes_in_groups :: "pystr \<Rightarrow> nat" where
  "count_sixes_in_groups message_text =
     sum_list (map (\<lambda>(ds, cards). length (filter (\<lambda>v. v = str ''6'') (findall_cards 0 cards)))
                   (findall_groups 0 message_text))"

definition get_first_group_total :: "pystr \<Rightarrow> int" where
  "get_first_group_total message_text =
     (case findall_groups 0 message_text of [] \<Rightarrow> - 1 | (ds, cards) # _ \<Rightarrow> int_of_digits ds)"

definition t_value_at :: "pystr \<Rightarrow> rat option" where
  \<comment> \<open>\<^verbatim>\<open>#T(\d+(?:\.\d+)?)\<close> at the head of the text, and the number its group denotes. Python
      rounds it to a double; the model keeps the decimal value.\<close>
  "t_value_at t =
     (if startswith t (str ''#T'') then
        (let r = drop 2 t; ip = takeWhile is_digit r; r2 = dropWhile is_digit r in
         if ip = [] then None
         else (case r2 of
                 [] \<Rightarrow> Some (of_int (int_of_digits ip))
               | c # r3 \<Rightarrow>
                   let fp = takeWhile is_digit r3 in
                   if c = 46 \<and> fp \<noteq> []
                   then Some (of_int (int_of_digits ip) + of_int (int_of_digits fp) / 10 ^ length fp)
                   else Some (of_int (int_of_digits ip))))
      else None)"

fun search_t_value :: "pystr \<Rightarrow> rat option" where
  "search_t_value [] = None"
| "search_t_value (c # cs) =
     (case t_value_at (c # cs) of Some v \<Rightarrow> Some v | None \<Rightarrow> search_t_value cs)"

definition extract_t_value :: "pystr \<Rightarrow> rat" where
  "extract_t_value message_text = (case search_t_value message_text of Some v \<Rightarrow> v | None \<Rightarrow> - 1)"

definition is_tie_game :: "pystr \<Rightarrow> bool" where
  \<comment> \<open>the tie marker: U+1F7E3 followed by \<^verbatim>\<open>#X\<close>\<close>
  "is_tie_game message_text = contains ([128995] @ str ''#X'') message_text"

definition should_skip_prediction :: "pystr \<Rightarrow> bool" where
  "should_skip_prediction message_text =
     (if is_tie_game message_text then True
      else if has_six_in_both_groups message_text then True
      else if count_sixes_in_groups message_text \<ge> 2 then True
      else
        let first_group_total = get_first_group_total message_text;
            has_six = has_six_in_first_group message_text
        in if first_group_total = 6 \<and> has_six then True else False)"

subsection \<open>The handler of the source channel\<close>

fun dict_set :: "'k \<Rightarrow> 'v \<Rightarrow> ('k \<times> 'v) list \<Rightarrow> ('k \<times> 'v) list" where
  \<comment> \<open>\<^verbatim>\<open>d[k] = v\<close>: an existing key keeps its place, a new one goes last\<close>
  "dict_set k v [] = [(k, v)]"
| "dict_set k v ((k', v') # d) = (if k' = k then (k, v) # d else (k', v') # dict_set k v d)"

definition dict_update :: "('k \<times> 'v) list \<Rightarrow> ('k \<times> 'v) list \<Rightarrow> ('k \<times> 'v) list" where
  \<comment> \<open>\<^verbatim>\<open>d.update(other)\<close>\<close>
  "dict_update d other = foldl (\<lambda>acc (k, v). dict_set k v acc) d other"

record event =
  is_channel :: bool
  chat_id :: int
  raw_text :: pystr

definition prediction_text_of :: "int \<Rightarrow> pystr \<Rightarrow> pystr" where
  \<comment> \<open>the two f-strings of the handler\<close>
  "prediction_text_of predicted_numero prediction_type =
     (if prediction_type = str ''joueur''
      then [128309] @ str_of_int predicted_numero @ str '':'' @ [127359, VS16] @ str ''+6,5''
             @ [128309] @ STATUT_PENDING
      else [128309] @ str_of_int predicted_numero @ str '':'' @ [9410, VS16] @ str ''-4,,5''
             @ [128309] @ STATUT_PENDING)"

definition handle_new_message ::
  "bot_state \<Rightarrow> event \<Rightarrow> int option \<Rightarrow> (int \<Rightarrow> bool) \<Rightarrow> int option \<Rightarrow> bot_state \<times> effect list" where
  \<comment> \<open>\<open>game_number\<close> is what \<^verbatim>\<open>predictor.extract_game_number(message_text)\<close> returns
      (predictor.py is not among the sources, so its result is an argument); \<open>sent\<close> is the
      outcome of \<^verbatim>\<open>client.send_message\<close>: the identifier of the delivered message, or \<open>None\<close>
      when the call raises\<close>
  "handle_new_message st ev game_number edit_ok sent =
     (if \<not> truthy (detected_stat_channel st) then (st, [])
      else if \<not> (is_channel ev \<and> Some (chat_id ev) = detected_stat_channel st) then (st, [])
      else
        let message_text = raw_text ev in
        if \<not> truthy game_number then (st, [])
        else
          let g = the game_number;
              (st, effs) = verify_active_predictions st g message_text edit_ok
          in
          if \<not> truthy (detected_display_channel st) then (st, effs)
          else if \<not> is_finalized_message message_text then (st, effs)
          else if should_skip_prediction message_text then (st, effs)
          else if \<not> has_six_in_first_group message_text then (st, effs)
          else
            let t_value = extract_t_value message_text in
            if t_value < 0 then (st, effs)
            else
              let predicted_numero = g + a_offset st in
              if predicted_numero \<in> fst ` set (active_predictions st) then (st, effs)
              else
                let prediction_type = (if t_value > 10.5 then str ''joueur'' else str ''banquier'');
                    prediction_text = prediction_text_of predicted_numero prediction_type;
                    send = SendMessage (the (detected_display_channel st)) prediction_text
                in
                (case sent of
                   None \<Rightarrow> (st, effs @ [send])
                 | Some sent_message_id \<Rightarrow>
                     (st\<lparr>active_predictions :=
                            dict_set predicted_numero
                              \<lparr>lp_message_id = Some sent_message_id,
                               lp_channel_id = detected_display_channel st,
                               expected = prediction_type,
                               base_text = prediction_text,
                               lp_verified = False,
                               status = None,
                               attempts = None\<rparr>
                              (active_predictions st)\<rparr>,
                      effs @ [send, SaveConfig])))"

subsection \<open>The command /r\<close>

datatype reply = NotAdmin | InvalidValue | Updated int | Current int

definition set_r_offset ::
  "int option \<Rightarrow> bot_state \<Rightarrow> int \<Rightarrow> int option \<Rightarrow> bot_state \<times> effect list \<times> reply" where
  \<comment> \<open>\<open>ADMIN_ID\<close> is the constant read from the environment; \<open>new_value\<close> is the number that the
      group \<^verbatim>\<open>(\d+)?\<close> of the command denotes, \<open>None\<close> when the group is absent\<close>
  "set_r_offset ADMIN_ID st sender_id new_value =
     (if truthy ADMIN_ID \<and> Some sender_id \<noteq> ADMIN_ID then (st, [], NotAdmin)
      else
        (case new_value of
           Some v \<Rightarrow>
             if v < 0 \<or> v > 10 then (st, [], InvalidValue)
             else (st\<lparr>r_offset := v\<rparr>, [SaveConfig], Updated v)
         | None \<Rightarrow> (st, [], Current (r_offset st))))"

section \<open>Import and activation (excel\_importer.py)\<close>

definition is_space :: "nat \<Rightarrow> bool" where
  \<comment> \<open>the white space that \<^verbatim>\<open>str.strip()\<close> removes\<close>
  "is_space c \<longleftrightarrow> (9 \<le> c \<and> c \<le> 13) \<or> (28 \<le> c \<and> c \<le> 32) \<or> c = 133 \<or> c = 160 \<or> c = 5760
      \<or> (8192 \<le> c \<and> c \<le> 8202) \<or> c = 8232 \<or> c = 8233 \<or> c = 8239 \<or> c = 8287 \<or> c = 12288"

definition strip :: "pystr \<Rightarrow> pystr" where
  "strip s = rev (dropWhile is_space (rev (dropWhile is_space s)))"

record excel_manager =
  predictions :: "(int \<times> excel_pred) list"
  last_launched_numero :: "int option"

text \<open>
  A row of the sheet, from the second one on: the date (as the text the import stores),
  the number and the expected winner; an empty cell is \<open>None\<close>. A cell counts as missing
  when it is falsy: \<open>None\<close>, the number 0, the empty text.
\<close>

type_synonym row = "pystr option \<times> int option \<times> pystr option"

record import_acc =
  imported_count :: nat
  skipped_count :: nat
  consecutive_skipped :: nat
  new_predictions :: "(int \<times> excel_pred) list"
  last_numero :: "int option"

definition import_row :: "excel_manager \<Rightarrow> bool \<Rightarrow> import_acc \<Rightarrow> row \<Rightarrow> import_acc" where
  \<comment> \<open>the body of the loop over the rows\<close>
  "import_row mgr replace_mode acc r =
     (case r of (date_cell, numero_cell, victoire_cell) \<Rightarrow>
        if date_cell = None \<or> date_cell = Some [] \<or> \<not> truthy numero_cell
           \<or> victoire_cell = None \<or> victoire_cell = Some []
        then acc
        else
          let date_str = the date_cell;
              numero_int = the numero_cell;
              victoire_type = strip (the victoire_cell);
              prediction_key = numero_int
          in
          if \<not> replace_mode \<and> (case map_of (predictions mgr) prediction_key of
                                         None \<Rightarrow> False | Some old \<Rightarrow> launched old)
          then acc\<lparr>skipped_count := skipped_count acc + 1\<rparr>
          else if last_numero acc \<noteq> None \<and> numero_int = the (last_numero acc) + 1
          then acc\<lparr>consecutive_skipped := consecutive_skipped acc + 1\<rparr>
          else
            acc\<lparr>new_predictions :=
                   dict_set prediction_key
                     \<lparr>numero = numero_int, date_heure = date_str, victoire = victoire_type,
                      launched = False, message_id = None, channel_id = None,
                      current_offset = None, verified = False, skipped_consecutive = False\<rparr>
                     (new_predictions acc),
                 imported_count := imported_count acc + 1,
                 last_numero := Some numero_int\<rparr>)"

definition import_rows :: "excel_manager \<Rightarrow> bool \<Rightarrow> row list \<Rightarrow> import_acc" where
  "import_rows mgr replace_mode rows =
     foldl (import_row mgr replace_mode)
       \<lparr>imported_count = 0, skipped_count = 0, consecutive_skipped = 0,
        new_predictions = [], last_numero = None\<rparr> rows"

definition import_excel :: "excel_manager \<Rightarrow> row list \<Rightarrow> bool \<Rightarrow> excel_manager \<times> import_acc" where
  \<comment> \<open>the rows are those of the active sheet of the workbook at \<^verbatim>\<open>file_path\<close>; the counters of
      the returned dictionary are those of the accumulator\<close>
  "import_excel mgr rows replace_mode =
     (let acc = import_rows mgr replace_mode rows in
      if replace_mode then (mgr\<lparr>predictions := new_predictions acc\<rparr>, acc)
      else (mgr\<lparr>predictions := dict_update (predictions mgr) (new_predictions acc)\<rparr>, acc))"





section \<open>The message stream and the scenarios\<close>

text \<open>
  Messages are processed one at a time, in arrival order. A message of the stream is its
  game number, its text and the outcome of the edits made while it is processed. Between
  two messages the command /r may have changed \<open>r_offset\<close>: for the live tracker a message
  also carries the value in force when it is processed.
\<close>

definition live_passes ::
  "bot_state \<Rightarrow> (int \<times> int \<times> pystr \<times> (int \<Rightarrow> bool)) list \<Rightarrow> bot_state" where
  "live_passes st msgs =
     foldl (\<lambda>s (ro, g, t, e). fst (verify_active_predictions (s\<lparr>r_offset := ro\<rparr>) g t e)) st msgs"

definition excel_passes ::
  "(int \<times> excel_pred) list \<Rightarrow> (int \<times> pystr \<times> (int \<Rightarrow> bool)) list \<Rightarrow> (int \<times> excel_pred) list" where
  "excel_passes ps msgs = foldl (\<lambda>s (g, t, e). fst (verify_excel_predictions g t e s)) ps msgs"

definition edit_always_ok :: "int \<Rightarrow> bool" where
  "edit_always_ok key = True"

definition scenario_text :: pystr where
  \<comment> \<open>the message of the end-to-end scenario: first group \<^verbatim>\<open>6(A 6)\<close> of spades, then the check
      mark, second group \<^verbatim>\<open>7(3 4)\<close>, metric \<^verbatim>\<open>#T12\<close>\<close>
  "scenario_text = str ''#N881. 6(A'' @ [9824] @ str ''6'' @ [9824] @ str '') '' @ [CHECK_MARK]
     @ str '' 7(3'' @ [9830] @ str ''4'' @ [9827] @ str '') #T12 ''"

definition scenario_text_7 :: pystr where
  \<comment> \<open>the same message with 7 as the total of the first group\<close>
  "scenario_text_7 = str ''#N881. 7(A'' @ [9824] @ str ''6'' @ [9824] @ str '') '' @ [CHECK_MARK]
     @ str '' 7(3'' @ [9830] @ str ''4'' @ [9827] @ str '') #T12 ''"

definition result_text :: "string \<Rightarrow> string \<Rightarrow> pystr" where
  \<comment> \<open>a finalized result for game \<open>n\<close> whose first group has the total \<open>p\<close>\<close>
  "result_text n p = str ''#N'' @ str n @ str ''. '' @ [CHECK_MARK] @ str p @ str ''(A'' @ [9824]
     @ str ''7'' @ [9829] @ str '') - 5(2'' @ [9830] @ str ''3'' @ [9827] @ str '')''"

definition unparsed_text :: "string \<Rightarrow> nat \<Rightarrow> pystr" where
  \<comment> \<open>a message for game \<open>n\<close> with the finalization marker \<open>m\<close> and no group to read a point from\<close>
  "unparsed_text n m = str ''#N'' @ str n @ str ''. '' @ [m] @ str '' 8 - 5''"

definition configured_state :: bot_state where
  "configured_state =
     \<lparr>detected_stat_channel = Some (- 1001), detected_display_channel = Some (- 1002),
      a_offset = 1, r_offset = 2, active_predictions = []\<rparr>"

definition source_event :: "pystr \<Rightarrow> event" where
  "source_event t = \<lparr>is_channel = True, chat_id = - 1001, raw_text = t\<rparr>"

definition record_882 :: live_pred where
  \<comment> \<open>the entry the handler registers for 882 when the delivered message has the identifier 4242\<close>
  "record_882 =
     \<lparr>lp_message_id = Some 4242, lp_channel_id = Some (- 1002), expected = str ''joueur'',
      base_text = prediction_text_of 882 (str ''joueur''), lp_verified = False, status = None,
      attempts = None\<rparr>"

definition excel_100 :: excel_pred where
  \<comment> \<open>an imported prediction for 100, as \<^verbatim>\<open>mark_as_launched\<close> leaves it\<close>
  "excel_100 =
     \<lparr>numero = 100, date_heure = str ''2025-01-01 10:00:00'', victoire = str ''joueur'',
      launched = True, message_id = Some 77, channel_id = Some (- 1002),
      current_offset = Some 0, verified = False, skipped_consecutive = False\<rparr>"

definition rows_of :: "int list \<Rightarrow> row list" where
  \<comment> \<open>a sheet whose rows carry the given identifiers\<close>
  "rows_of ns = map (\<lambda>n. (Some (str ''2025-01-01 10:00:00''), Some n, Some (str ''joueur''))) ns"

definition pending_1 :: excel_pred where
  \<comment> \<open>an imported prediction for 1, not launched\<close>
  "pending_1 =
     \<lparr>numero = 1, date_heure = str ''2025-01-01 10:00:00'', victoire = str ''joueur'',
      launched = False, message_id = None, channel_id = None,
      current_offset = None, verified = False, skipped_consecutive = False\<rparr>"




section \<open>Evaluation of texts\<close>

lemmas text_eval = str_def extract_points_and_winner_def marker_digits_paren_def
  digits_then_paren_def is_digit_def int_of_digits_def

lemma expected_of_cases: "expected_of w = str ''banquier'' \<or> expected_of w = str ''joueur''"
  by (simp add: expected_of_def)

lemma joueur_neq_banquier: "str ''joueur'' \<noteq> str ''banquier''"
  by (simp add: str_def)

lemma expected_of_literals:
  "expected_of (str ''joueur'') = str ''joueur''"
  "expected_of (str ''banquier'') = str ''banquier''"
  by (simp_all add: expected_of_def str_def lower_def)

lemma success_status_simps:
  "\<not> is_success_status (Some STATUS_FAILURE)"
  "\<not> is_success_status None"
  "is_success_status (VERIFICATION_EMOJIS 0)"
  "is_success_status (VERIFICATION_EMOJIS 1)"
  "is_success_status (VERIFICATION_EMOJIS 2)"
  by (simp_all add: is_success_status_def VERIFICATION_EMOJIS_def STATUS_FAILURE_def)

lemma set_dict_set: "set (dict_set k v d) \<subseteq> insert (k, v) (set d)"
  by (induction d) (auto split: if_splits)


section \<open>Thresholds of the imported tracker\<close>

text \<open>
  Claim C4. A launched imported prediction is evaluated by \<open>verify_excel_prediction\<close> at
  its target offset (the game is 0, 1 or 2 numbers past the predicted one) on a message that
  is finalized, not in edit, and whose first-group point value is \<open>v\<close>. When the expected
  winner reads as joueur the evaluation returns a success token iff \<open>v \<ge> 7\<close>; when it reads
  as banquier, iff \<open>v \<le> 4\<close>; for \<open>v = 5\<close> and \<open>v = 6\<close> it returns no success token, whatever
  the expected winner. (\<open>expected_of\<close> is the reading of the stored winner text that the
  function makes; it has no third value.)
\<close>

theorem imported_threshold_correct:
  assumes "0 \<le> g - p" and "g - p \<le> 2"
    and "ALARM_CLOCK \<notin> set t" and "ONE_OCLOCK \<notin> set t"
    and "CHECK_MARK \<in> set t \<or> BEGINNER \<in> set t"
    and "extract_points_and_winner t = Some v"
  shows "(expected_of w = str ''joueur'' \<longrightarrow>
           (is_success_status (fst (verify_excel_prediction g t p w off)) \<longleftrightarrow> 7 \<le> v)) \<and>
         (expected_of w = str ''banquier'' \<longrightarrow>
           (is_success_status (fst (verify_excel_prediction g t p w off)) \<longleftrightarrow> v \<le> 4)) \<and>
         (v = 5 \<or> v = 6 \<longrightarrow> \<not> is_success_status (fst (verify_excel_prediction g t p w off)))"
  using assms expected_of_cases [of w] joueur_neq_banquier
  by (auto simp: verify_excel_prediction_def Let_def success_status_simps)

theorem imported_threshold_correct_witness:
  "is_success_status (fst (verify_excel_prediction 882
      (str ''#N882. '' @ [CHECK_MARK] @ str ''8(A'' @ [9824] @ str '')'') 882 (str ''joueur'') 0))
   \<and> \<not> is_success_status (fst (verify_excel_prediction 882
      (str ''#N882. '' @ [CHECK_MARK] @ str ''8(A'' @ [9824] @ str '')'') 882 (str ''banquier'') 0))"
proof -
  let ?t = "str ''#N882. '' @ [CHECK_MARK] @ str ''8(A'' @ [9824] @ str '')''"
  have p: "extract_points_and_winner ?t = Some 8"
    by (simp add: text_eval)
  have m: "ALARM_CLOCK \<notin> set ?t" "ONE_OCLOCK \<notin> set ?t" "CHECK_MARK \<in> set ?t \<or> BEGINNER \<in> set ?t"
    by (simp_all add: str_def)
  have o: "(0::int) \<le> 882 - 882" "(882::int) - 882 \<le> 2"
    by simp_all
  from imported_threshold_correct [OF o m p, of "str ''joueur''" 0]
    imported_threshold_correct [OF o m p, of "str ''banquier''" 0] expected_of_literals
  show ?thesis by simp
qed

section \<open>The end-to-end scenario\<close>

lemmas parse_eval = text_eval group_at_def card_at_def is_suit_def has_six_in_first_group_def
  has_six_in_both_groups_def count_sixes_in_groups_def get_first_group_total_def
  t_value_at_def extract_t_value_def is_tie_game_def should_skip_prediction_def
  is_finalized_message_def

lemma scenario_text_parse:
  "is_finalized_message scenario_text"
  "get_first_group_total scenario_text = 6"
  "has_six_in_first_group scenario_text"
  "should_skip_prediction scenario_text"
  by (simp_all add: scenario_text_def parse_eval)

lemma scenario_text_7_parse:
  "is_finalized_message scenario_text_7"
  "\<not> should_skip_prediction scenario_text_7"
  "has_six_in_first_group scenario_text_7"
  "extract_t_value scenario_text_7 = 12"
  by (simp_all add: scenario_text_7_def parse_eval)

lemma result_text_883_parse:
  "is_finalized_message (result_text ''883'' ''8'')"
  "extract_points_and_winner (result_text ''883'' ''8'') = Some 8"
  "\<not> should_skip_prediction (result_text ''883'' ''8'')"
  "\<not> has_six_in_first_group (result_text ''883'' ''8'')"
  by (simp_all add: result_text_def parse_eval)

lemma result_text_884_parse:
  "extract_points_and_winner (result_text ''884'' ''3'') = Some 3"
  by (simp add: result_text_def text_eval)

text \<open>
  Claim C1, as stated, fails: the scenario message has the first-group total 6 and a card 6
  in the first group, which \<open>should_skip_prediction\<close> excludes. The handler registers
  nothing and sends nothing.
\<close>

theorem scenario_message_is_skipped:
  "handle_new_message configured_state (source_event scenario_text) (Some 881) edit_always_ok (Some 4242)
     = (configured_state, [])"
  by (simp add: handle_new_message_def configured_state_def source_event_def truthy_def
      verify_active_predictions_def scenario_text_parse)

text \<open>
  Claim C1, amended. The same message with the first-group total 7, with \<open>a_offset = 1\<close>,
  a configured display channel, a delivered send and no prediction for 882, makes the handler
  register the live prediction 882 with the expected outcome joueur (the metric 12 exceeds
  10.5). For that record, the finalized message of game 883 whose first-group point value
  is 8 resolves it to success at the attempt index 1, the edit being delivered.
\<close>

theorem end_to_end_first_total_seven:
  "handle_new_message configured_state (source_event scenario_text_7) (Some 881) edit_always_ok (Some 4242)
     = (configured_state\<lparr>active_predictions := [(882, record_882)]\<rparr>,
        [SendMessage (- 1002) (prediction_text_of 882 (str ''joueur'')), SaveConfig])
   \<and> expected record_882 = str ''joueur''
   \<and> handle_new_message (configured_state\<lparr>active_predictions := [(882, record_882)]\<rparr>)
        (source_event (result_text ''883'' ''8'')) (Some 883) edit_always_ok None
     = (configured_state\<lparr>active_predictions :=
          [(882, record_882\<lparr>attempts := Some 1, lp_verified := True,
                            status := Some (status_emoji_of 1)\<rparr>)]\<rparr>,
        [EditMessage (- 1002) 4242
           (replace (base_text record_882) STATUT_PENDING (str ''statut :'' @ status_emoji_of 1)),
         SaveConfig])"
proof (intro conjI)
  show "handle_new_message configured_state (source_event scenario_text_7) (Some 881) edit_always_ok (Some 4242)
     = (configured_state\<lparr>active_predictions := [(882, record_882)]\<rparr>,
        [SendMessage (- 1002) (prediction_text_of 882 (str ''joueur'')), SaveConfig])"
    by (simp add: handle_new_message_def configured_state_def source_event_def truthy_def
        verify_active_predictions_def scenario_text_7_parse record_882_def Let_def)
  show "expected record_882 = str ''joueur''"
    by (simp add: record_882_def)
  have pass: "verify_pred 883 (result_text ''883'' ''8'') 2 True 882 record_882 =
      (record_882\<lparr>attempts := Some 1, lp_verified := True, status := Some (status_emoji_of 1)\<rparr>,
       [EditMessage (- 1002) 4242
           (replace (base_text record_882) STATUT_PENDING (str ''statut :'' @ status_emoji_of 1)),
        SaveConfig])"
    by (simp add: verify_pred_def result_text_883_parse record_882_def truthy_def Let_def)
  show "handle_new_message (configured_state\<lparr>active_predictions := [(882, record_882)]\<rparr>)
        (source_event (result_text ''883'' ''8'')) (Some 883) edit_always_ok None
     = (configured_state\<lparr>active_predictions :=
          [(882, record_882\<lparr>attempts := Some 1, lp_verified := True,
                            status := Some (status_emoji_of 1)\<rparr>)]\<rparr>,
        [EditMessage (- 1002) 4242
           (replace (base_text record_882) STATUT_PENDING (str ''statut :'' @ status_emoji_of 1)),
         SaveConfig])"
    by (simp add: handle_new_message_def configured_state_def source_event_def truthy_def
        verify_active_predictions_def result_text_883_parse pass edit_always_ok_def Let_def)
qed

theorem end_to_end_first_total_seven_witness:
  "map fst (active_predictions (fst (handle_new_message configured_state
      (source_event scenario_text_7) (Some 881) edit_always_ok (Some 4242)))) = [882]
   \<and> map (status \<circ> snd) (active_predictions (fst (handle_new_message
        (configured_state\<lparr>active_predictions := [(882, record_882)]\<rparr>)
        (source_event (result_text ''883'' ''8'')) (Some 883) edit_always_ok None)))
      = [Some [CHECK_MARK, 49, VS16, KEYCAP]]"
  using end_to_end_first_total_seven
  by (simp add: status_emoji_of_def VERIFICATION_EMOJIS_def)

section \<open>Messages without a first-group point value\<close>

lemma unparsed_text_parse:
  "extract_points_and_winner (unparsed_text ''100'' CHECK_MARK) = None"
  "extract_points_and_winner (unparsed_text ''883'' BEGINNER) = None"
  "CHECK_MARK \<in> set (unparsed_text ''100'' CHECK_MARK)"
  "BEGINNER \<notin> set (unparsed_text ''100'' CHECK_MARK)"
  "ALARM_CLOCK \<notin> set (unparsed_text ''100'' CHECK_MARK)"
  "ONE_OCLOCK \<notin> set (unparsed_text ''100'' CHECK_MARK)"
  by (simp_all add: unparsed_text_def text_eval)

text \<open>
  Claim C2, as stated, fails in the imported tracker: on a finalized message that carries
  the check mark and not the other marker, a failed extraction makes
  \<open>verify_excel_prediction\<close> return the failure status, and the pass marks the record
  verified.
\<close>

theorem parse_miss_fails_imported_record:
  "extract_points_and_winner (unparsed_text ''100'' CHECK_MARK) = None
   \<and> verify_excel_prediction 100 (unparsed_text ''100'' CHECK_MARK) 100 (str ''joueur'') 0
       = (Some STATUS_FAILURE, False)
   \<and> verify_excel_pred 100 (unparsed_text ''100'' CHECK_MARK) True excel_100
       = (excel_100\<lparr>verified := True\<rparr>,
          [EditMessage (- 1002) 77 (status_text 100 (str ''joueur'') STATUS_FAILURE), SavePredictions])"
proof -
  have v: "verify_excel_prediction 100 (unparsed_text ''100'' CHECK_MARK) 100 (str ''joueur'') 0
       = (Some STATUS_FAILURE, False)"
    by (simp add: verify_excel_prediction_def unparsed_text_parse)
  have "verify_excel_pred 100 (unparsed_text ''100'' CHECK_MARK) True excel_100
       = (excel_100\<lparr>verified := True\<rparr>,
          [EditMessage (- 1002) 77 (status_text 100 (str ''joueur'') STATUS_FAILURE), SavePredictions])"
    by (simp add: verify_excel_pred_def sequential_check_def v update_prediction_status_def
        excel_100_def truthy_def STATUS_FAILURE_def Let_def)
  with v unparsed_text_parse(1) show ?thesis by simp
qed

text \<open>
  Claim C2, amended. On a message whose first-group point value cannot be extracted, the
  live tracker leaves a record as it is whenever the game is at most \<open>r_offset\<close> past the
  predicted number (beyond it the record is failed whatever the content); the imported
  tracker's \<open>verify_excel_prediction\<close> never returns a success status, and returns the
  failure status exactly when the game is more than 2 past the predicted number or when
  the message, at a target offset and not in edit, carries the check mark without the other
  finalization marker; otherwise it returns no status and asks to continue.
\<close>

theorem parse_miss_behaviour:
  assumes "extract_points_and_winner t = None"
  shows "(g - k \<le> ro \<longrightarrow> verify_pred g t ro ok k r = (r, [])) \<and>
         verify_excel_prediction g t p w off =
           (if g - p < 0 then (None, True)
            else if g - p > 2 then (Some STATUS_FAILURE, False)
            else if ALARM_CLOCK \<in> set t \<or> ONE_OCLOCK \<in> set t then (None, True)
            else if CHECK_MARK \<in> set t \<and> BEGINNER \<notin> set t then (Some STATUS_FAILURE, False)
            else (None, True))"
  using assms by (auto simp: verify_pred_def verify_excel_prediction_def Let_def)

theorem parse_miss_behaviour_witness:
  "verify_pred 883 (unparsed_text ''883'' BEGINNER) 2 True 882 record_882 = (record_882, [])
   \<and> verify_excel_prediction 883 (unparsed_text ''883'' BEGINNER) 882 (str ''joueur'') 0 = (None, True)"
proof -
  have m: "ALARM_CLOCK \<notin> set (unparsed_text ''883'' BEGINNER)"
    "ONE_OCLOCK \<notin> set (unparsed_text ''883'' BEGINNER)"
    "BEGINNER \<in> set (unparsed_text ''883'' BEGINNER)"
    by (simp_all add: unparsed_text_def str_def)
  from parse_miss_behaviour [OF unparsed_text_parse(2), of 883 882 2 True record_882 882 "str ''joueur''" 0] m
  show ?thesis by simp
qed

section \<open>Failure of the edit\<close>

text \<open>
  Claim C3 does not hold of the code. The live record 882 (joueur) is checked on the
  finalized message of game 883 with the point value 8: the pass decides success and
  sends the edit. When the edit raises, the record keeps \<open>lp_verified = False\<close> and no
  status, only the attempt counter has moved. The message of game 884 (point value 3) is
  then evaluated for the same record and resolves it to failure. The imported tracker
  behaves alike: \<open>update_prediction_status\<close> sets \<open>verified\<close> only after a delivered edit.
\<close>

theorem edit_failure_loses_success:
  "verify_pred 883 (result_text ''883'' ''8'') 2 False 882 record_882 =
     (record_882\<lparr>attempts := Some 1\<rparr>,
      [EditMessage (- 1002) 4242
         (replace (base_text record_882) STATUT_PENDING (str ''statut :'' @ status_emoji_of 1))])
   \<and> verify_pred 884 (result_text ''884'' ''3'') 2 True 882 (record_882\<lparr>attempts := Some 1\<rparr>) =
     (record_882\<lparr>attempts := Some 2, lp_verified := True, status := Some STATUS_FAILURE\<rparr>,
      [EditMessage (- 1002) 4242
         (replace (base_text record_882) STATUT_PENDING (str ''statut :'' @ STATUS_FAILURE)),
       SaveConfig])
   \<and> update_prediction_status excel_100 100 (str ''joueur'') (status_emoji_of 0) True False =
     (excel_100, [EditMessage (- 1002) 77 (status_text 100 (str ''joueur'') (status_emoji_of 0))])"
  by (simp add: verify_pred_def result_text_883_parse result_text_884_parse record_882_def
      truthy_def Let_def update_prediction_status_def excel_100_def)

theorem edit_failure_loses_success_witness:
  "\<not> lp_verified (fst (verify_pred 883 (result_text ''883'' ''8'') 2 False 882 record_882))
   \<and> status (fst (verify_pred 883 (result_text ''883'' ''8'') 2 False 882 record_882)) = None
   \<and> status (fst (verify_pred 884 (result_text ''884'' ''3'') 2 True 882
        (fst (verify_pred 883 (result_text ''883'' ''8'') 2 False 882 record_882))))
       = Some STATUS_FAILURE"
  using edit_failure_loses_success by (simp add: record_882_def)

section \<open>Gap skipping\<close>




section \<open>Consecutive identifiers at import\<close>

lemma import_row_consecutive:
  assumes "last_numero acc = Some l" and "n = l + 1" and "n \<noteq> 0"
    and "d \<noteq> None" and "d \<noteq> Some []" and "w \<noteq> None" and "w \<noteq> Some []"
    and "rm \<or> (\<forall>old. map_of (predictions mgr) n = Some old \<longrightarrow> \<not> launched old)"
  shows "import_row mgr rm acc (d, Some n, w) = acc\<lparr>consecutive_skipped := consecutive_skipped acc + 1\<rparr>"
  using assms by (auto simp: import_row_def truthy_def Let_def split: option.splits)

lemma import_example:
  "map fst (predictions (fst (import_excel mgr (rows_of [56, 57, 59, 60, 61]) True))) = [56, 59, 61]"
  by (simp add: import_excel_def import_rows_def rows_of_def import_row_def truthy_def str_def Let_def)

text \<open>
  Claim C6. While the rows are imported, a complete row whose identifier is one more than
  the last retained identifier only increments the counter of skipped rows: it creates no
  record and the last retained identifier stays the comparison point (in merge mode this
  is for a row not already set aside as launched). For the identifiers 56, 57, 59, 60, 61
  the imported map has exactly the keys 56, 59 and 61: no record for 57, a record for 59.
\<close>

theorem consecutive_import_suppression:
  "(last_numero acc = Some l \<and> n = l + 1 \<and> n \<noteq> 0 \<and> d \<noteq> None \<and> d \<noteq> Some [] \<and> w \<noteq> None
      \<and> w \<noteq> Some [] \<and> (rm \<or> (\<forall>old. map_of (predictions mgr) n = Some old \<longrightarrow> \<not> launched old))
    \<longrightarrow> new_predictions (import_row mgr rm acc (d, Some n, w)) = new_predictions acc
        \<and> last_numero (import_row mgr rm acc (d, Some n, w)) = Some l
        \<and> imported_count (import_row mgr rm acc (d, Some n, w)) = imported_count acc)
   \<and> map fst (predictions (fst (import_excel mgr (rows_of [56, 57, 59, 60, 61]) True))) = [56, 59, 61]
   \<and> map_of (predictions (fst (import_excel mgr (rows_of [56, 57, 59, 60, 61]) True))) 57 = None
   \<and> map_of (predictions (fst (import_excel mgr (rows_of [56, 57, 59, 60, 61]) True))) 59 \<noteq> None"
proof -
  have keys: "map fst (predictions (fst (import_excel mgr (rows_of [56, 57, 59, 60, 61]) True))) = [56, 59, 61]"
    by (rule import_example)
  have "57 \<notin> set (map fst (predictions (fst (import_excel mgr (rows_of [56, 57, 59, 60, 61]) True))))"
    and "59 \<in> set (map fst (predictions (fst (import_excel mgr (rows_of [56, 57, 59, 60, 61]) True))))"
    unfolding keys by simp_all
  then have "map_of (predictions (fst (import_excel mgr (rows_of [56, 57, 59, 60, 61]) True))) 57 = None"
    and "map_of (predictions (fst (import_excel mgr (rows_of [56, 57, 59, 60, 61]) True))) 59 \<noteq> None"
    by (simp_all add: map_of_eq_None_iff)
  with keys import_row_consecutive [of acc l n d w rm mgr] show ?thesis
    by auto
qed

theorem consecutive_import_suppression_witness:
  "new_predictions (import_row \<lparr>predictions = [], last_launched_numero = None\<rparr> True
      \<lparr>imported_count = 1, skipped_count = 0, consecutive_skipped = 0,
       new_predictions = [(56, pending_1\<lparr>numero := 56\<rparr>)], last_numero = Some 56\<rparr>
      (Some (str ''2025-01-01 10:05:00''), Some 57, Some (str ''banquier'')))
   = [(56, pending_1\<lparr>numero := 56\<rparr>)]"
  using consecutive_import_suppression [of
      "\<lparr>imported_count = 1, skipped_count = 0, consecutive_skipped = 0,
       new_predictions = [(56, pending_1\<lparr>numero := 56\<rparr>)], last_numero = Some 56\<rparr>"
      56 57 "Some (str ''2025-01-01 10:05:00'')" "Some (str ''banquier'')" True
      "\<lparr>predictions = [], last_launched_numero = None\<rparr>"]
  by (simp add: str_def)

section \<open>Consecutive identifiers at activation\<close>
















section \<open>Terminal finality\<close>

lemma verify_pred_verified: "lp_verified r \<Longrightarrow> verify_pred g t ro ok k r = (r, [])"
  by (simp add: verify_pred_def)

lemma verify_excel_pred_verified: "verified x \<Longrightarrow> verify_excel_pred g t ok x = (x, [])"
  by (simp add: verify_excel_pred_def)

lemma live_pass_length:
  "length (active_predictions (fst (verify_active_predictions st g t e))) = length (active_predictions st)"
  by (simp add: verify_active_predictions_def)

lemma live_pass_verified:
  assumes "i < length (active_predictions st)" and "lp_verified (snd (active_predictions st ! i))"
  shows "active_predictions (fst (verify_active_predictions st g t e)) ! i = active_predictions st ! i"
  using assms by (simp add: verify_active_predictions_def split_beta verify_pred_verified)

lemma excel_pass_length: "length (fst (verify_excel_predictions g t e ps)) = length ps"
  by (simp add: verify_excel_predictions_def)

lemma excel_pass_verified:
  assumes "j < length ps" and "verified (snd (ps ! j))"
  shows "fst (verify_excel_predictions g t e ps) ! j = ps ! j"
  using assms by (simp add: verify_excel_predictions_def split_beta verify_excel_pred_verified)

lemma live_passes_verified:
  "i < length (active_predictions st) \<Longrightarrow> lp_verified (snd (active_predictions st ! i)) \<Longrightarrow>
   i < length (active_predictions (live_passes st msgs)) \<and>
   active_predictions (live_passes st msgs) ! i = active_predictions st ! i"
proof (induction msgs arbitrary: st)
  case Nil
  then show ?case by (simp add: live_passes_def)
next
  case (Cons m msgs)
  obtain ro g t e where m: "m = (ro, g, t, e)" by (cases m)
  let ?st = "fst (verify_active_predictions (st\<lparr>r_offset := ro\<rparr>) g t e)"
  have 1: "i < length (active_predictions ?st)"
    using Cons.prems by (simp add: live_pass_length)
  have 2: "active_predictions ?st ! i = active_predictions st ! i"
    using Cons.prems live_pass_verified [of i "st\<lparr>r_offset := ro\<rparr>" g t e] by simp
  have "live_passes st (m # msgs) = live_passes ?st msgs"
    by (simp add: live_passes_def m)
  with Cons.IH [OF 1] 2 Cons.prems show ?case by simp
qed

lemma excel_passes_verified:
  "j < length ps \<Longrightarrow> verified (snd (ps ! j)) \<Longrightarrow>
   j < length (excel_passes ps msgs) \<and> excel_passes ps msgs ! j = ps ! j"
proof (induction msgs arbitrary: ps)
  case Nil
  then show ?case by (simp add: excel_passes_def)
next
  case (Cons m msgs)
  obtain g t e where m: "m = (g, t, e)" by (cases m)
  let ?ps = "fst (verify_excel_predictions g t e ps)"
  have 1: "j < length ?ps"
    using Cons.prems by (simp add: excel_pass_length)
  have 2: "?ps ! j = ps ! j"
    using Cons.prems by (rule excel_pass_verified)
  have "excel_passes ps (m # msgs) = excel_passes ?ps msgs"
    by (simp add: excel_passes_def m)
  with Cons.IH [OF 1] 2 Cons.prems show ?case by simp
qed

text \<open>
  Claim C8. A record whose \<open>verified\<close> flag is set is skipped by both verification passes:
  whatever messages follow, with whatever edit outcomes and whatever \<open>r_offset\<close> in force,
  the entry of the live registry (status, attempts and flag) and the entry of the imported
  registry (offset and flag) stay what they were, at the same place of the registry.
\<close>

theorem terminal_finality:
  "(\<forall>i < length (active_predictions st). lp_verified (snd (active_predictions st ! i)) \<longrightarrow>
      active_predictions (live_passes st msgs) ! i = active_predictions st ! i) \<and>
   (\<forall>j < length ps. verified (snd (ps ! j)) \<longrightarrow> excel_passes ps msgs' ! j = ps ! j)"
  using live_passes_verified excel_passes_verified by blast

theorem terminal_finality_witness:
  "active_predictions (live_passes
      (configured_state\<lparr>active_predictions :=
         [(882, record_882\<lparr>attempts := Some 1, lp_verified := True, status := Some (status_emoji_of 1)\<rparr>)]\<rparr>)
      [(2, 884, result_text ''884'' ''3'', edit_always_ok), (0, 885, result_text ''885'' ''8'', edit_always_ok)]) ! 0
     = (882, record_882\<lparr>attempts := Some 1, lp_verified := True, status := Some (status_emoji_of 1)\<rparr>)
   \<and> excel_passes [(100, excel_100\<lparr>verified := True\<rparr>)]
        [(101, result_text ''101'' ''3'', edit_always_ok), (103, result_text ''103'' ''8'', edit_always_ok)] ! 0
     = (100, excel_100\<lparr>verified := True\<rparr>)"
  using terminal_finality [where st =
      "configured_state\<lparr>active_predictions :=
         [(882, record_882\<lparr>attempts := Some 1, lp_verified := True, status := Some (status_emoji_of 1)\<rparr>)]\<rparr>"
      and msgs = "[(2, 884, result_text ''884'' ''3'', edit_always_ok), (0, 885, result_text ''885'' ''8'', edit_always_ok)]"
      and ps = "[(100, excel_100\<lparr>verified := True\<rparr>)]"
      and msgs' = "[(101, result_text ''101'' ''3'', edit_always_ok), (103, result_text ''103'' ''8'', edit_always_ok)]"]
  by simp

section \<open>The command /r\<close>

text \<open>
  Claim C9. Given a value outside 0..10, the command /r answers with an error, saves
  nothing and leaves the globals, \<open>r_offset\<close> among them, as they were. Given a value
  within 0..10 by a sender who passes the administrator check (the administrator, or anyone
  when no administrator is configured), it sets \<open>r_offset\<close> to the value and calls
  \<open>save_config\<close>.
\<close>

theorem r_offset_validation:
  "(v < 0 \<or> v > 10 \<longrightarrow>
      fst (set_r_offset admin st sender (Some v)) = st
      \<and> fst (snd (set_r_offset admin st sender (Some v))) = []
      \<and> (snd (snd (set_r_offset admin st sender (Some v))) = InvalidValue
         \<or> snd (snd (set_r_offset admin st sender (Some v))) = NotAdmin)) \<and>
   (0 \<le> v \<and> v \<le> 10 \<and> (\<not> truthy admin \<or> admin = Some sender) \<longrightarrow>
      set_r_offset admin st sender (Some v) = (st\<lparr>r_offset := v\<rparr>, [SaveConfig], Updated v))"
  by (auto simp: set_r_offset_def)

theorem r_offset_validation_witness:
  "r_offset (fst (set_r_offset (Some 5) configured_state 5 (Some 11))) = 2
   \<and> r_offset (fst (set_r_offset (Some 5) configured_state 5 (Some 10))) = 10
   \<and> fst (snd (set_r_offset (Some 5) configured_state 5 (Some 10))) = [SaveConfig]"
  using r_offset_validation [of 11 "Some 5" configured_state 5]
    r_offset_validation [of 10 "Some 5" configured_state 5]
  by (simp add: configured_state_def)

section \<open>The offset 0 in the live tracker\<close>

lemma str_of_nat_digits: "\<forall>c \<in> set (str_of_nat n). c < 58"
proof (induction n rule: str_of_nat.induct)
  case (1 n)
  show ?case
  proof (cases "n < 10")
    case True
    then show ?thesis by (simp add: str_of_nat.simps [of n])
  next
    case False
    have "n mod 10 < 10" by simp
    with False 1 show ?thesis by (auto simp: str_of_nat.simps [of n])
  qed
qed

lemma status_emoji_of_pos:
  assumes "1 \<le> k"
  shows "status_emoji_of k \<noteq> status_emoji_of 0"
proof (cases "k \<le> 10")
  case True
  with assms have "k = 1 \<or> k = 2 \<or> k = 3 \<or> k = 4 \<or> k = 5 \<or> k = 6 \<or> k = 7 \<or> k = 8 \<or> k = 9 \<or> k = 10"
    by arith
  then show ?thesis by (auto simp: status_emoji_of_def VERIFICATION_EMOJIS_def)
next
  case False
  then have e: "status_emoji_of k = CHECK_MARK # str_of_nat (nat k)"
    by (simp add: status_emoji_of_def VERIFICATION_EMOJIS_def str_of_int_def)
  have "VS16 \<notin> set (str_of_nat (nat k))"
    using str_of_nat_digits [of "nat k"] by auto
  then have "str_of_nat (nat k) \<noteq> [48, VS16, KEYCAP]" by auto
  with e show ?thesis by (simp add: status_emoji_of_def VERIFICATION_EMOJIS_def)
qed

lemma failure_not_success_0: "STATUS_FAILURE \<noteq> status_emoji_of 0"
  by (simp add: STATUS_FAILURE_def status_emoji_of_def VERIFICATION_EMOJIS_def)

lemma verify_pred_attempts:
  assumes "0 \<le> ro" and "\<forall>a. attempts r = Some a \<longrightarrow> 0 \<le> a"
  shows "\<forall>a. attempts (fst (verify_pred g t ro ok k r)) = Some a \<longrightarrow> 0 \<le> a"
  using assms by (auto simp: verify_pred_def Let_def split: option.splits)

lemma live_pass_attempts:
  assumes "0 \<le> r_offset st"
    and "\<forall>e \<in> set (active_predictions st). \<forall>a. attempts (snd e) = Some a \<longrightarrow> 0 \<le> a"
  shows "\<forall>e \<in> set (active_predictions (fst (verify_active_predictions st g t eo))).
           \<forall>a. attempts (snd e) = Some a \<longrightarrow> 0 \<le> a"
proof (cases "is_finalized_message t")
  case False
  with assms(2) show ?thesis by (simp add: verify_active_predictions_def)
next
  case True
  show ?thesis
  proof
    fix e assume "e \<in> set (active_predictions (fst (verify_active_predictions st g t eo)))"
    with True obtain k r where kr: "(k, r) \<in> set (active_predictions st)"
      and e: "e = (k, fst (verify_pred g t (r_offset st) (eo k) k r))"
      by (auto simp: verify_active_predictions_def)
    from assms(2) kr have "\<forall>a. attempts r = Some a \<longrightarrow> 0 \<le> a" by auto
    from verify_pred_attempts [OF assms(1) this] e
    show "\<forall>a. attempts (snd e) = Some a \<longrightarrow> 0 \<le> a" by simp
  qed
qed

lemma handler_registry:
  "set (active_predictions (fst (handle_new_message st ev gn eo sent)))
     \<subseteq> set (active_predictions st)
       \<union> set (active_predictions (fst (verify_active_predictions st (the gn) (raw_text ev) eo)))
       \<union> {e. attempts (snd e) = None}"
  unfolding handle_new_message_def Let_def split_beta
  by (auto split: option.splits dest!: set_dict_set [THEN subsetD])

lemma handler_attempts:
  assumes "0 \<le> r_offset st"
    and "\<forall>e \<in> set (active_predictions st). \<forall>a. attempts (snd e) = Some a \<longrightarrow> 0 \<le> a"
  shows "\<forall>e \<in> set (active_predictions (fst (handle_new_message st ev gn eo sent))).
           \<forall>a. attempts (snd e) = Some a \<longrightarrow> 0 \<le> a"
proof
  fix e
  assume "e \<in> set (active_predictions (fst (handle_new_message st ev gn eo sent)))"
  with handler_registry [of st ev gn eo sent]
  consider "e \<in> set (active_predictions st)"
    | "e \<in> set (active_predictions (fst (verify_active_predictions st (the gn) (raw_text ev) eo)))"
    | "attempts (snd e) = None"
    by auto
  then show "\<forall>a. attempts (snd e) = Some a \<longrightarrow> 0 \<le> a"
  proof cases
    case 1
    with assms(2) show ?thesis by blast
  next
    case 2
    with live_pass_attempts [OF assms, of "the gn" "raw_text ev" eo] show ?thesis by blast
  next
    case 3
    then show ?thesis by simp
  qed
qed

text \<open>
  Claim C10. With \<open>r_offset \<ge> 0\<close>, and for a record whose attempt counter is absent (as the
  handler creates it) or not negative, the message of the predicted game itself is a
  no-op for the record: no extraction, no change, no effect. The condition on the counter
  holds of every record the handler creates and is kept by every pass and by the handler;
  and no pass ever gives a record the status of the attempt index 0. An offset that is
  evaluated is therefore at least 1.
\<close>

theorem live_offset_zero_never_evaluated:
  assumes "0 \<le> ro" and "\<forall>a. attempts r = Some a \<longrightarrow> 0 \<le> a"
  shows "verify_pred k t ro ok k r = (r, [])
     \<and> (\<forall>a. attempts (fst (verify_pred g t ro ok k r)) = Some a \<longrightarrow> 0 \<le> a)
     \<and> (status (fst (verify_pred g t ro ok k r)) = Some (status_emoji_of 0) \<longrightarrow>
          status r = Some (status_emoji_of 0))
     \<and> (r_offset st = ro \<and>
          (\<forall>e \<in> set (active_predictions st). \<forall>a. attempts (snd e) = Some a \<longrightarrow> 0 \<le> a) \<longrightarrow>
          (\<forall>e \<in> set (active_predictions (fst (handle_new_message st ev gn eo sent))).
              \<forall>a. attempts (snd e) = Some a \<longrightarrow> 0 \<le> a))"
proof (intro conjI)
  show "verify_pred k t ro ok k r = (r, [])"
    using assms by (auto simp: verify_pred_def Let_def split: option.splits)
  show "\<forall>a. attempts (fst (verify_pred g t ro ok k r)) = Some a \<longrightarrow> 0 \<le> a"
    using assms by (rule verify_pred_attempts)
  show "status (fst (verify_pred g t ro ok k r)) = Some (status_emoji_of 0) \<longrightarrow>
            status r = Some (status_emoji_of 0)"
    using assms failure_not_success_0 status_emoji_of_pos [of "g - k"]
    by (auto simp: verify_pred_def Let_def split: option.splits if_splits)
  show "r_offset st = ro \<and>
          (\<forall>e \<in> set (active_predictions st). \<forall>a. attempts (snd e) = Some a \<longrightarrow> 0 \<le> a) \<longrightarrow>
          (\<forall>e \<in> set (active_predictions (fst (handle_new_message st ev gn eo sent))).
              \<forall>a. attempts (snd e) = Some a \<longrightarrow> 0 \<le> a)"
    using assms(1) handler_attempts [of st ev gn eo sent] by blast
qed

theorem live_offset_zero_never_evaluated_witness:
  "verify_pred 882 (result_text ''882'' ''8'') 2 True 882 record_882 = (record_882, [])"
proof -
  have "\<forall>a. attempts record_882 = Some a \<longrightarrow> 0 \<le> a"
    by (simp add: record_882_def)
  with live_offset_zero_never_evaluated [of 2 record_882 882 "result_text ''882'' ''8''" True]
  show ?thesis by simp
qed

end
